theory Spec2Isabelle
  imports Complex_Main
begin

section \<open>Configuration constants of \<^verbatim>\<open>login_screen.py\<close>\<close>

text \<open>
  The module-level constants the CAPTCHA core reads. \<^verbatim>\<open>CAPTCHA_TTL_SECONDS\<close> is a
  Python int that is only ever compared with a difference of two clock readings; clock
  readings (\<^verbatim>\<open>time.time()\<close>, seconds since the epoch, a float) are taken as real numbers.
\<close>

definition CAPTCHA_LENGTH :: int where
  "CAPTCHA_LENGTH = 5"

definition CAPTCHA_TTL_SECONDS :: real where
  "CAPTCHA_TTL_SECONDS = 120"

definition ascii_uppercase :: string where
  "ascii_uppercase = ''ABCDEFGHIJKLMNOPQRSTUVWXYZ''"

definition digits :: string where
  "digits = ''0123456789''"

text \<open>
  \<^verbatim>\<open>ALLOWED_CHARS = ''.join(ch for ch in (string.ascii_uppercase + string.digits)
                           if ch not in "0O1IJL")\<close>
\<close>

definition ambiguous :: string where
  "ambiguous = ''0O1IJL''"

definition ALLOWED_CHARS :: string where
  "ALLOWED_CHARS = filter (\<lambda>ch. ch \<notin> set ambiguous) (ascii_uppercase @ digits)"


section \<open>Python strings: \<^verbatim>\<open>str.strip\<close> and \<^verbatim>\<open>str.upper\<close>\<close>

text \<open>
  Strings are lists of 8-bit characters, a character standing for the code point
  \<open>of_char\<close> gives. The two built-in string methods that \<^verbatim>\<open>verify\<close> calls are written out
  for them. \<^verbatim>\<open>strip()\<close> removes the characters Python counts as whitespace; below 256
  these are the code points 9 to 13, 28 to 32, 133 and 160. \<^verbatim>\<open>upper()\<close> maps \<^verbatim>\<open>a\<close> .. \<^verbatim>\<open>z\<close>
  to \<^verbatim>\<open>A\<close> .. \<^verbatim>\<open>Z\<close> and leaves every other ASCII character alone.

  Above 127 \<^verbatim>\<open>upper()\<close> follows the Unicode case mapping, whose results need not be
  8-bit characters nor single characters (the sharp s becomes \<^verbatim>\<open>SS\<close>), and Python strings hold
  code points beyond 255: \<open>py_upper\<close> describes \<^verbatim>\<open>upper()\<close> on ASCII strings only, which is
  what \<open>py_isascii\<close> (\<^verbatim>\<open>str.isascii\<close>) says of a string. The challenge alphabet is ASCII.
  Every statement below whose outcome depends on the characters of a string is made for
  ASCII strings.
\<close>

definition py_isascii :: "string \<Rightarrow> bool" where
  "py_isascii xs = list_all (\<lambda>c. (of_char c :: nat) < 128) xs"

definition py_isspace :: "char \<Rightarrow> bool" where
  "py_isspace c =
     (let n = (of_char c :: nat)
      in (9 \<le> n \<and> n \<le> 13) \<or> (28 \<le> n \<and> n \<le> 32) \<or> n = 133 \<or> n = 160)"

definition py_lstrip :: "string \<Rightarrow> string" where
  "py_lstrip xs = dropWhile py_isspace xs"

definition py_rstrip :: "string \<Rightarrow> string" where
  "py_rstrip xs = rev (dropWhile py_isspace (rev xs))"

definition py_strip :: "string \<Rightarrow> string" where
  "py_strip xs = py_rstrip (py_lstrip xs)"

definition is_ascii_lower :: "char \<Rightarrow> bool" where
  "is_ascii_lower c = (let n = (of_char c :: nat) in 97 \<le> n \<and> n \<le> 122)"

definition upper_char :: "char \<Rightarrow> char" where
  "upper_char c = (if is_ascii_lower c then char_of ((of_char c :: nat) - 32) else c)"

definition py_upper :: "string \<Rightarrow> string" where
  "py_upper xs = map upper_char xs"


section \<open>The random source\<close>

text \<open>
  The module draws from Python's global generator. Its state is modelled as an arbitrary
  sequence of raw draws with a read position; \<^verbatim>\<open>random.choice(seq)\<close> returns
  \<^verbatim>\<open>seq[i]\<close> for an index \<open>i\<close> below \<^verbatim>\<open>len(seq)\<close> and raises \<^verbatim>\<open>IndexError\<close> on an
  empty sequence. Every index below the length is the outcome of some sequence of draws.
\<close>

record rng =
  draws :: "nat \<Rightarrow> nat"
  pos :: nat

datatype py_error = IndexError | AttributeError

definition random_choice :: "'a list \<Rightarrow> rng \<Rightarrow> py_error + ('a \<times> rng)" where
  "random_choice seq g =
     (if seq = [] then Inl IndexError
      else Inr (seq ! (draws g (pos g) mod length seq), g\<lparr>pos := pos g + 1\<rparr>))"


section \<open>Challenge text\<close>

text \<open>
  \<^verbatim>\<open>def generate_captcha_text(length=CAPTCHA_LENGTH):
      return ''.join(random.choice(ALLOWED_CHARS) for _ in range(length))\<close>

  \<open>choices n\<close> is the generator expression run for \<open>n\<close> rounds; \<^verbatim>\<open>range(length)\<close> is
  empty for a length below one, which \<open>nat\<close> gives.
\<close>

fun choices :: "nat \<Rightarrow> rng \<Rightarrow> py_error + (string \<times> rng)" where
  "choices 0 g = Inr ([], g)"
| "choices (Suc n) g =
     (case random_choice ALLOWED_CHARS g of
        Inl e \<Rightarrow> Inl e
      | Inr (c, g1) \<Rightarrow>
          (case choices n g1 of
             Inl e \<Rightarrow> Inl e
           | Inr (cs, g2) \<Rightarrow> Inr (c # cs, g2)))"

definition generate_captcha_text :: "int \<Rightarrow> rng \<Rightarrow> py_error + (string \<times> rng)" where
  "generate_captcha_text length_arg g = choices (nat length_arg) g"


section \<open>The session\<close>

text \<open>
  \<^verbatim>\<open>class CaptchaSession\<close>: three attributes, each \<^verbatim>\<open>None\<close> until \<^verbatim>\<open>create()\<close> assigns it.
  The attribute \<^verbatim>\<open>text\<close> is \<open>text_attr\<close> and \<^verbatim>\<open>image\<close> is \<open>image_attr\<close> here. The image
  is whatever \<^verbatim>\<open>render_captcha_image\<close> returns; the rendering (PIL drawing calls fed by the
  same random source) is a parameter \<open>render\<close> of the operations that call it.
\<close>

record 'img CaptchaSession =
  text_attr :: "string option"
  image_attr :: "'img option"
  created_at :: "real option"

definition init :: "'img CaptchaSession" where
  "init = \<lparr>text_attr = None, image_attr = None, created_at = None\<rparr>"

text \<open>
  \<^verbatim>\<open>def create(self):
      self.text = generate_captcha_text()
      self.image = render_captcha_image(self.text)
      self.created_at = time.time()\<close>

  \<open>now\<close> is the value \<^verbatim>\<open>time.time()\<close> returns in the last line.
\<close>

definition create ::
  "(string \<Rightarrow> rng \<Rightarrow> 'img \<times> rng) \<Rightarrow> real \<Rightarrow> rng \<Rightarrow> 'img CaptchaSession
     \<Rightarrow> py_error + ('img CaptchaSession \<times> rng)" where
  "create render now g s =
     (case generate_captcha_text CAPTCHA_LENGTH g of
        Inl e \<Rightarrow> Inl e
      | Inr (t, g1) \<Rightarrow>
          (case render t g1 of
             (img, g2) \<Rightarrow>
               Inr (s\<lparr>text_attr := Some t, image_attr := Some img, created_at := Some now\<rparr>, g2)))"

text \<open>
  Python's \<^verbatim>\<open>not x\<close> on an attribute that is \<^verbatim>\<open>None\<close> or a string (\<^verbatim>\<open>None\<close> and the empty
  string are falsy), and on one that is \<^verbatim>\<open>None\<close> or a float (\<^verbatim>\<open>None\<close> and \<^verbatim>\<open>0.0\<close> are
  falsy).
\<close>

definition py_not_str :: "string option \<Rightarrow> bool" where
  "py_not_str x = (case x of None \<Rightarrow> True | Some t \<Rightarrow> t = [])"

definition py_not_float :: "real option \<Rightarrow> bool" where
  "py_not_float x = (case x of None \<Rightarrow> True | Some r \<Rightarrow> r = 0)"

text \<open>
  \<^verbatim>\<open>def is_valid(self):
      if not self.text or not self.created_at:
          return False
      return (time.time() - self.created_at) <= CAPTCHA_TTL_SECONDS\<close>

  \<open>now\<close> is the clock reading of the call.
\<close>

definition is_valid :: "real \<Rightarrow> 'img CaptchaSession \<Rightarrow> bool" where
  "is_valid now s =
     (if py_not_str (text_attr s) \<or> py_not_float (created_at s) then False
      else (case created_at s of
              None \<Rightarrow> False
            | Some c \<Rightarrow> now - c \<le> CAPTCHA_TTL_SECONDS))"

text \<open>
  \<^verbatim>\<open>def verify(self, attempt):
      if not self.is_valid():
          return False, "expired"
      if attempt.strip().upper() == self.text.upper():
          return True, "ok"
      return False, "incorrect"\<close>

  The method returns its pair together with the session as the call leaves it.
  \<^verbatim>\<open>self.text.upper()\<close> on a \<^verbatim>\<open>None\<close> text would raise \<^verbatim>\<open>AttributeError\<close>.
\<close>

definition verify ::
  "real \<Rightarrow> string \<Rightarrow> 'img CaptchaSession
     \<Rightarrow> py_error + ((bool \<times> string) \<times> 'img CaptchaSession)" where
  "verify now attempt s =
     (if \<not> is_valid now s then Inr ((False, ''expired''), s)
      else (case text_attr s of
              None \<Rightarrow> Inl AttributeError
            | Some t \<Rightarrow>
                if py_upper (py_strip attempt) = py_upper t then Inr ((True, ''ok''), s)
                else Inr ((False, ''incorrect''), s)))"


section \<open>The caller: \<^verbatim>\<open>LoginApp\<close>\<close>

text \<open>
  \<^verbatim>\<open>_new_captcha\<close> calls \<^verbatim>\<open>self.captcha.create()\<close> and redraws the canvas; only the
  session matters here.
\<close>

definition new_captcha ::
  "(string \<Rightarrow> rng \<Rightarrow> 'img \<times> rng) \<Rightarrow> real \<Rightarrow> rng \<Rightarrow> 'img CaptchaSession
     \<Rightarrow> py_error + 'img CaptchaSession" where
  "new_captcha render now g s =
     (case create render now g s of Inl e \<Rightarrow> Inl e | Inr (s', g') \<Rightarrow> Inr s')"

text \<open>
  The effect of \<^verbatim>\<open>_on_login\<close> on the session. The three entry fields are its inputs;
  the credential check (a SHA-256 digest looked up in \<^verbatim>\<open>DEMO_USERS\<close>) enters as its
  outcome \<open>authenticated\<close>. \<open>now_verify\<close> is the clock reading inside \<^verbatim>\<open>verify\<close>,
  \<open>now_create\<close> the one inside a following \<^verbatim>\<open>create\<close>.

  \<^verbatim>\<open>username = self.username_var.get().strip()
  password = self.password_var.get()
  captcha_attempt = self.captcha_var.get().strip()
  if not username or not password:
      return
  ok, reason = self.captcha.verify(captcha_attempt)
  if not ok:
      if reason == "expired":
          self._new_captcha(); return
      else:
          self._new_captcha(); return
  if stored_hash and stored_hash == pwd_hash:
      self.captcha.text = None
  else:
      self._new_captcha()\<close>
\<close>

definition on_login ::
  "(string \<Rightarrow> rng \<Rightarrow> 'img \<times> rng) \<Rightarrow> string \<Rightarrow> string \<Rightarrow> string \<Rightarrow> bool
     \<Rightarrow> real \<Rightarrow> real \<Rightarrow> rng \<Rightarrow> 'img CaptchaSession \<Rightarrow> py_error + 'img CaptchaSession" where
  "on_login render username_entry password_entry captcha_entry authenticated
       now_verify now_create g s =
     (let username = py_strip username_entry;
          password = password_entry;
          captcha_attempt = py_strip captcha_entry
      in if username = [] \<or> password = [] then Inr s
         else (case verify now_verify captcha_attempt s of
                 Inl e \<Rightarrow> Inl e
               | Inr ((ok, reason), s1) \<Rightarrow>
                   if \<not> ok then
                     (if reason = ''expired'' then new_captcha render now_create g s1
                      else new_captcha render now_create g s1)
                   else if authenticated then Inr (s1\<lparr>text_attr := None\<rparr>)
                   else new_captcha render now_create g s1))"

text \<open>
  The operations that act on a session, each with the clock readings and the generator
  state it meets, and the session after a sequence of them. \<^verbatim>\<open>is_valid\<close> only reads. An
  operation that raised would leave the session as it found it.
\<close>

datatype op =
    Create real rng
  | Is_valid real
  | Verify real string
  | Login string string string bool real real rng

fun step :: "(string \<Rightarrow> rng \<Rightarrow> 'img \<times> rng) \<Rightarrow> 'img CaptchaSession \<Rightarrow> op \<Rightarrow> 'img CaptchaSession" where
  "step render s (Create now g) =
     (case create render now g s of Inl e \<Rightarrow> s | Inr (s', g') \<Rightarrow> s')"
| "step render s (Is_valid now) = s"
| "step render s (Verify now attempt) =
     (case verify now attempt s of Inl e \<Rightarrow> s | Inr (r, s') \<Rightarrow> s')"
| "step render s (Login u p c authenticated now_verify now_create g) =
     (case on_login render u p c authenticated now_verify now_create g s of
        Inl e \<Rightarrow> s
      | Inr s' \<Rightarrow> s')"

fun run :: "(string \<Rightarrow> rng \<Rightarrow> 'img \<times> rng) \<Rightarrow> 'img CaptchaSession \<Rightarrow> op list \<Rightarrow> 'img CaptchaSession" where
  "run render s [] = s"
| "run render s (x # xs) = run render (step render s x) xs"


section \<open>Notions of the specification\<close>

text \<open>
  Trimming, in the specification's words: the attempt is the trimmed text \<open>u\<close> with
  whitespace before it and whitespace after it, and \<open>u\<close> itself neither begins nor ends
  with whitespace. Whitespace is, among the ASCII characters, tab, line feed, vertical
  tab, form feed, carriage return, the four separators 28 to 31 and the space.
\<close>

definition whitespace :: "char \<Rightarrow> bool" where
  "whitespace c = ((of_char c :: nat) \<in> set [9, 10, 11, 12, 13, 28, 29, 30, 31, 32])"

definition bordered :: "string \<Rightarrow> bool" where
  "bordered u = (u \<noteq> [] \<and> (whitespace (hd u) \<or> whitespace (last u)))"

definition trimmed_to :: "string \<Rightarrow> string \<Rightarrow> bool" where
  "trimmed_to attempt u =
     (\<exists>pre post. attempt = pre @ u @ post \<and> list_all whitespace pre \<and> list_all whitespace post
        \<and> \<not> bordered u)"

text \<open>
  Upper-case ASCII letters and digits, by their code points.
\<close>

definition is_ascii_upper :: "char \<Rightarrow> bool" where
  "is_ascii_upper c = (let n = (of_char c :: nat) in 65 \<le> n \<and> n \<le> 90)"

definition is_ascii_digit :: "char \<Rightarrow> bool" where
  "is_ascii_digit c = (let n = (of_char c :: nat) in 48 \<le> n \<and> n \<le> 57)"

text \<open>
  Two characters are the same letter ignoring case when they are equal or one is an
  upper-case ASCII letter and the other its lower-case form, 32 code points above; two
  strings are equal ignoring letter case when they agree position by position in this
  sense. An attempt matches a stored text when what it trims to equals the text ignoring
  letter case.
\<close>

definition same_letter :: "char \<Rightarrow> char \<Rightarrow> bool" where
  "same_letter a b =
     (a = b
      \<or> (is_ascii_upper a \<and> (of_char b :: nat) = of_char a + 32)
      \<or> (is_ascii_upper b \<and> (of_char a :: nat) = of_char b + 32))"

definition equal_ignoring_case :: "string \<Rightarrow> string \<Rightarrow> bool" where
  "equal_ignoring_case xs ys = list_all2 same_letter xs ys"

definition trimmed_equal_ignoring_case :: "string \<Rightarrow> string \<Rightarrow> bool" where
  "trimmed_equal_ignoring_case attempt t =
     (\<exists>u. trimmed_to attempt u \<and> equal_ignoring_case u t)"

text \<open>
  The restricted alphabet in the specification's words: an upper-case ASCII letter or a
  digit that is none of the glyphs 0, O, 1, I, J, L.
\<close>

definition restricted_alphabet :: "char \<Rightarrow> bool" where
  "restricted_alphabet c =
     ((is_ascii_upper c \<or> is_ascii_digit c) \<and> c \<notin> set ''0O1IJL'')"


text \<open>
  The atomicity the specification states for the three attributes: all unset, or all set.
\<close>

definition all_or_nothing :: "'img CaptchaSession \<Rightarrow> bool" where
  "all_or_nothing s =
     ((text_attr s = None \<and> image_attr s = None \<and> created_at s = None)
      \<or> (text_attr s \<noteq> None \<and> image_attr s \<noteq> None \<and> created_at s \<noteq> None))"

text \<open>
  What the operations do keep: image and timestamp are set together, a text is only set
  beside them, and a text that is set is not empty.
\<close>

definition challenge_invariant :: "'img CaptchaSession \<Rightarrow> bool" where
  "challenge_invariant s =
     ((image_attr s = None \<longleftrightarrow> created_at s = None)
      \<and> (text_attr s \<noteq> None \<longrightarrow> image_attr s \<noteq> None \<and> created_at s \<noteq> None)
      \<and> text_attr s \<noteq> Some [])"


section \<open>Sample inputs\<close>

text \<open>
  A rendering that returns the text itself as the image, a generator whose \<open>i\<close>-th draw
  is \<open>i\<close> (so that the first challenge is \<^verbatim>\<open>ABCDE\<close>), and sessions holding a challenge.
\<close>

definition sample_render :: "string \<Rightarrow> rng \<Rightarrow> string \<times> rng" where
  "sample_render t g = (t, g)"

definition sample_rng :: rng where
  "sample_rng = \<lparr>draws = (\<lambda>i. i), pos = 0\<rparr>"

definition sample_session :: "string CaptchaSession" where
  "sample_session =
     \<lparr>text_attr = Some ''AB3FQ'', image_attr = Some ''AB3FQ'', created_at = Some 1000\<rparr>"


section \<open>Supporting facts\<close>

subsection \<open>The alphabet and the generated text\<close>

lemma ALLOWED_CHARS_eq: "ALLOWED_CHARS = ''ABCDEFGHKMNPQRSTUVWXYZ23456789''"
  by code_simp

lemma ALLOWED_CHARS_nonempty: "ALLOWED_CHARS \<noteq> []"
  by (simp add: ALLOWED_CHARS_eq)

lemma allowed_space_table: "list_all (\<lambda>c. \<not> py_isspace c) ALLOWED_CHARS"
  by code_simp

lemma allowed_not_space: "c \<in> set ALLOWED_CHARS \<Longrightarrow> \<not> py_isspace c"
  using allowed_space_table unfolding list_all_iff by blast

lemma allowed_restricted_table: "list_all restricted_alphabet ALLOWED_CHARS"
  by code_simp

lemma allowed_restricted: "c \<in> set ALLOWED_CHARS \<Longrightarrow> restricted_alphabet c"
  using allowed_restricted_table unfolding list_all_iff by blast

lemma random_choice_allowed:
  "\<exists>c. random_choice ALLOWED_CHARS g = Inr (c, g\<lparr>pos := pos g + 1\<rparr>) \<and> c \<in> set ALLOWED_CHARS"
  using ALLOWED_CHARS_nonempty by (simp add: random_choice_def)

lemma choices_total:
  "\<exists>cs. choices n g = Inr (cs, g\<lparr>pos := pos g + n\<rparr>) \<and> length cs = n \<and> set cs \<subseteq> set ALLOWED_CHARS"
proof (induction n arbitrary: g)
  case 0
  show ?case by simp
next
  case (Suc n)
  obtain c where c: "random_choice ALLOWED_CHARS g = Inr (c, g\<lparr>pos := pos g + 1\<rparr>)"
    "c \<in> set ALLOWED_CHARS"
    using random_choice_allowed by blast
  obtain cs where cs: "choices n (g\<lparr>pos := pos g + 1\<rparr>)
      = Inr (cs, g\<lparr>pos := pos g + 1\<rparr>\<lparr>pos := pos (g\<lparr>pos := pos g + 1\<rparr>) + n\<rparr>)"
    "length cs = n" "set cs \<subseteq> set ALLOWED_CHARS"
    using Suc.IH by blast
  from c cs show ?case by simp
qed

lemma generate_total:
  "\<exists>t. generate_captcha_text CAPTCHA_LENGTH g = Inr (t, g\<lparr>pos := pos g + 5\<rparr>)
        \<and> length t = 5 \<and> set t \<subseteq> set ALLOWED_CHARS"
  using choices_total [of 5 g] by (simp add: generate_captcha_text_def CAPTCHA_LENGTH_def)

subsection \<open>Stripping and upper-casing\<close>

lemma dropWhile_none: "\<forall>c\<in>set xs. \<not> P c \<Longrightarrow> dropWhile P xs = xs"
  by (cases xs) auto

lemma py_strip_no_space: "\<forall>c\<in>set xs. \<not> py_isspace c \<Longrightarrow> py_strip xs = xs"
  by (simp add: py_strip_def py_lstrip_def py_rstrip_def dropWhile_none)

lemma isspace_ascii: "(of_char c :: nat) < 128 \<Longrightarrow> py_isspace c \<longleftrightarrow> whitespace c"
  unfolding py_isspace_def whitespace_def Let_def by (simp; arith)

lemma strip_pred_decompose:
  "\<exists>pre post. a = pre @ rev (dropWhile P (rev (dropWhile P a))) @ post
      \<and> list_all P pre \<and> list_all P post"
proof -
  let ?b = "dropWhile P a"
  have 1: "a = takeWhile P a @ ?b" by simp
  have 2: "?b = rev (dropWhile P (rev ?b)) @ rev (takeWhile P (rev ?b))"
    by (metis rev_append rev_rev_ident takeWhile_dropWhile_id)
  have 3: "list_all P (takeWhile P a)" by (simp add: list_all_iff) (meson set_takeWhileD)
  have 4: "list_all P (rev (takeWhile P (rev ?b)))"
    by (simp add: list_all_iff) (meson set_takeWhileD)
  from 1 2 have "a = takeWhile P a @ rev (dropWhile P (rev ?b)) @ rev (takeWhile P (rev ?b))"
    by metis
  with 3 4 show ?thesis by blast
qed

lemma strip_pred_hd:
  assumes "rev (dropWhile P (rev (dropWhile P a))) \<noteq> []"
  shows "\<not> P (hd (rev (dropWhile P (rev (dropWhile P a)))))"
    and "\<not> P (last (rev (dropWhile P (rev (dropWhile P a)))))"
proof -
  let ?b = "dropWhile P a"
  let ?u = "rev (dropWhile P (rev ?b))"
  from assms have ne: "dropWhile P (rev ?b) \<noteq> []" by simp
  then have "\<not> P (hd (dropWhile P (rev ?b)))" by (rule hd_dropWhile)
  then show "\<not> P (last ?u)" using ne by (simp add: last_rev)
  have bne: "?b \<noteq> []"
  proof
    assume "?b = []"
    then have "dropWhile P (rev ?b) = []" by (simp only: rev.simps dropWhile.simps)
    with ne show False by contradiction
  qed
  then have nb: "\<not> P (hd ?b)" by (rule hd_dropWhile)
  have "?b = ?u @ rev (takeWhile P (rev ?b))"
    by (metis rev_append rev_rev_ident takeWhile_dropWhile_id)
  with assms have "hd ?b = hd ?u" by (metis hd_append2)
  with nb show "\<not> P (hd ?u)" by simp
qed

lemma strip_pred_unique:
  assumes "a = pre @ u @ post" and "list_all P pre" and "list_all P post"
    and "\<not> (u \<noteq> [] \<and> (P (hd u) \<or> P (last u)))"
  shows "rev (dropWhile P (rev (dropWhile P a))) = u"
proof (cases u)
  case Nil
  with assms have "list_all P a" by simp
  then have "dropWhile P a = []" by (simp add: list_all_iff)
  then show ?thesis unfolding Nil by (simp only: rev.simps dropWhile.simps)
next
  case (Cons x xs)
  with assms(4) have h: "\<not> P (hd u)" and l: "\<not> P (last u)" by auto
  from assms(2) have "dropWhile P (pre @ u @ post) = dropWhile P (u @ post)"
    by (intro dropWhile_append2) (simp add: list_all_iff)
  also have "\<dots> = u @ post" using Cons h by simp
  finally have 1: "dropWhile P a = u @ post" using assms(1) by simp
  from assms(3) have "dropWhile P (rev post @ rev u) = dropWhile P (rev u)"
    by (intro dropWhile_append2) (simp add: list_all_iff)
  also have "\<dots> = rev u"
  proof (cases "rev u")
    case Nil
    then show ?thesis by simp
  next
    case (Cons y ys)
    have "hd (rev u) = last u" using \<open>u = x # xs\<close> by (simp add: hd_rev)
    with l Cons show ?thesis by simp
  qed
  finally show ?thesis using 1 by simp
qed

lemma py_strip_ascii:
  assumes "py_isascii a"
  shows "py_strip a = rev (dropWhile whitespace (rev (dropWhile whitespace a)))"
proof -
  from assms have asc: "\<forall>c\<in>set a. (of_char c :: nat) < 128"
    by (simp add: py_isascii_def list_all_iff)
  have 1: "dropWhile py_isspace a = dropWhile whitespace a"
    using asc by (intro dropWhile_cong) (auto simp: isspace_ascii)
  have "\<forall>c\<in>set (rev (dropWhile whitespace a)). (of_char c :: nat) < 128"
    using asc by (auto dest: set_dropWhileD)
  then have 2: "dropWhile py_isspace (rev (dropWhile whitespace a))
      = dropWhile whitespace (rev (dropWhile whitespace a))"
    by (intro dropWhile_cong) (auto simp: isspace_ascii)
  show ?thesis by (simp add: py_strip_def py_lstrip_def py_rstrip_def 1 2)
qed

lemma py_strip_iff_trimmed:
  assumes "py_isascii a"
  shows "trimmed_to a u \<longleftrightarrow> u = py_strip a"
proof
  assume "trimmed_to a u"
  then obtain pre post where "a = pre @ u @ post" "list_all whitespace pre"
    "list_all whitespace post" "\<not> bordered u"
    by (auto simp: trimmed_to_def)
  then have "rev (dropWhile whitespace (rev (dropWhile whitespace a))) = u"
    using strip_pred_unique [of a pre u post whitespace] by (simp add: bordered_def)
  then show "u = py_strip a" by (simp add: py_strip_ascii [OF assms])
next
  assume u: "u = py_strip a"
  let ?u = "rev (dropWhile whitespace (rev (dropWhile whitespace a)))"
  have uu: "u = ?u" using u by (simp add: py_strip_ascii [OF assms])
  obtain pre post where d: "a = pre @ ?u @ post" "list_all whitespace pre"
    "list_all whitespace post"
    using strip_pred_decompose [of a whitespace] by blast
  have "\<not> bordered ?u"
    using strip_pred_hd [of whitespace a] by (auto simp: bordered_def)
  with d uu show "trimmed_to a u" unfolding trimmed_to_def by blast
qed

lemma upper_char_eq_iff: "upper_char a = upper_char b \<longleftrightarrow> same_letter a b"
proof -
  have lt: "(of_char a :: nat) < 256" "(of_char b :: nat) < 256" by simp_all
  have ab: "a = b \<longleftrightarrow> (of_char a :: nat) = of_char b" by simp
  show ?thesis
    unfolding upper_char_def same_letter_def is_ascii_lower_def is_ascii_upper_def Let_def
    using lt
    by (auto simp add: char_of_eq_iff take_bit_eq_mod ab simp del: of_char_eq_iff)
qed

lemma py_upper_eq_iff: "py_upper xs = py_upper ys \<longleftrightarrow> equal_ignoring_case xs ys"
  unfolding py_upper_def equal_ignoring_case_def
proof (induction xs arbitrary: ys)
  case Nil
  show ?case by auto
next
  case (Cons x xs)
  show ?case
    by (cases ys) (simp_all add: Cons.IH upper_char_eq_iff)
qed

lemma trimmed_equal_iff:
  "py_isascii a \<Longrightarrow>
     trimmed_equal_ignoring_case a t \<longleftrightarrow> py_upper (py_strip a) = py_upper t"
  by (simp add: trimmed_equal_ignoring_case_def py_strip_iff_trimmed py_upper_eq_iff)

subsection \<open>Validity, verification and creation\<close>

lemma is_valid_iff:
  "is_valid now s \<longleftrightarrow>
     (\<exists>t c. text_attr s = Some t \<and> t \<noteq> [] \<and> created_at s = Some c \<and> c \<noteq> 0 \<and> now - c \<le> 120)"
  by (auto simp: is_valid_def py_not_str_def py_not_float_def CAPTCHA_TTL_SECONDS_def
      split: option.splits)

lemma verify_invalid: "\<not> is_valid now s \<Longrightarrow> verify now a s = Inr ((False, ''expired''), s)"
  by (simp add: verify_def)

lemma verify_valid:
  "is_valid now s \<Longrightarrow> text_attr s = Some t \<Longrightarrow>
   verify now a s =
     Inr ((if py_upper (py_strip a) = py_upper t then (True, ''ok'') else (False, ''incorrect'')), s)"
  by (simp add: verify_def)

lemma verify_returns:
  "\<exists>r. verify now a s = Inr (r, s) \<and> r \<in> {(True, ''ok''), (False, ''incorrect''), (False, ''expired'')}"
proof (cases "is_valid now s")
  case False
  then show ?thesis by (simp add: verify_invalid)
next
  case True
  then obtain t where "text_attr s = Some t" by (auto simp: is_valid_iff)
  with True show ?thesis by (simp add: verify_valid)
qed

lemma create_result:
  "\<exists>t. create render now g s =
          Inr (s\<lparr>text_attr := Some t,
                 image_attr := Some (fst (render t (g\<lparr>pos := pos g + 5\<rparr>))),
                 created_at := Some now\<rparr>,
               snd (render t (g\<lparr>pos := pos g + 5\<rparr>)))
        \<and> length t = 5 \<and> set t \<subseteq> set ALLOWED_CHARS"
proof -
  obtain t where t: "generate_captcha_text CAPTCHA_LENGTH g = Inr (t, g\<lparr>pos := pos g + 5\<rparr>)"
    "length t = 5" "set t \<subseteq> set ALLOWED_CHARS"
    using generate_total by blast
  then show ?thesis
    by (intro exI [of _ t]) (simp add: create_def case_prod_beta)
qed

lemma verify_after_create:
  assumes "T \<noteq> 0" and "create render T g s0 = Inr (s, g')" and "text_attr s = Some t"
  shows "verify now t s =
           Inr ((if now - T \<le> 120 then (True, ''ok'') else (False, ''expired'')), s)"
proof -
  obtain t' where c: "create render T g s0 =
          Inr (s0\<lparr>text_attr := Some t',
                 image_attr := Some (fst (render t' (g\<lparr>pos := pos g + 5\<rparr>))),
                 created_at := Some T\<rparr>,
               snd (render t' (g\<lparr>pos := pos g + 5\<rparr>)))"
    and t': "length t' = 5" "set t' \<subseteq> set ALLOWED_CHARS"
    using create_result by blast
  from c assms(2) have s: "text_attr s = Some t'" "created_at s = Some T" by auto
  with assms(3) have tt: "t = t'" by simp
  have ne: "t \<noteq> []" using t' tt by auto
  have "\<forall>c\<in>set t. \<not> py_isspace c" using t' tt allowed_not_space by blast
  then have strip: "py_strip t = t" by (rule py_strip_no_space)
  have v: "is_valid now s \<longleftrightarrow> now - T \<le> 120"
    using s tt ne assms(1) by (simp add: is_valid_iff)
  show ?thesis
    using v s tt strip by (simp add: verify_def)
qed

subsection \<open>What every operation preserves\<close>

lemma create_invariant: "create render now g s = Inr (s', g') \<Longrightarrow> challenge_invariant s'"
  using create_result [of render now g s] by (auto simp: challenge_invariant_def)

lemma new_captcha_invariant: "new_captcha render now g s = Inr s' \<Longrightarrow> challenge_invariant s'"
  by (auto simp: new_captcha_def create_invariant split: sum.splits)

lemma consume_invariant: "challenge_invariant s \<Longrightarrow> challenge_invariant (s\<lparr>text_attr := None\<rparr>)"
  by (simp add: challenge_invariant_def)

lemma on_login_invariant:
  assumes "challenge_invariant s"
    and "on_login render u p c auth t1 t2 g s = Inr s'"
  shows "challenge_invariant s'"
proof -
  obtain r where r: "verify t1 (py_strip c) s = Inr (r, s)"
    using verify_returns by blast
  show ?thesis
    using assms r
    by (cases r) (auto simp: on_login_def Let_def new_captcha_invariant consume_invariant
        split: if_splits)
qed

lemma step_invariant: "challenge_invariant s \<Longrightarrow> challenge_invariant (step render s x)"
proof (cases x)
  case (Create now g)
  assume "challenge_invariant s"
  then show ?thesis using Create by (auto simp: create_invariant split: sum.splits)
next
  case (Is_valid now)
  assume "challenge_invariant s"
  then show ?thesis using Is_valid by simp
next
  case (Verify now a)
  assume "challenge_invariant s"
  moreover obtain r where "verify now a s = Inr (r, s)" using verify_returns by blast
  ultimately show ?thesis using Verify by simp
next
  case (Login u p c auth t1 t2 g)
  assume "challenge_invariant s"
  then show ?thesis using Login by (auto simp: on_login_invariant split: sum.splits)
qed

lemma run_invariant: "challenge_invariant s \<Longrightarrow> challenge_invariant (run render s xs)"
  by (induction xs arbitrary: s) (simp_all add: step_invariant)

lemma init_invariant: "challenge_invariant init"
  by (simp add: challenge_invariant_def init_def)


section \<open>The claims\<close>

text \<open>
  C1. A challenge created at time \<open>T\<close> and not replaced verifies with its own text as
  \<^verbatim>\<open>(True, "ok")\<close> at every time whose distance from \<open>T\<close> is at most 120 seconds, the bound
  included, and as \<^verbatim>\<open>(False, "expired")\<close> at every later time. \<open>T\<close> is the reading of
  \<^verbatim>\<open>time.time()\<close>, seconds since the epoch on a running system, and is not \<^verbatim>\<open>0.0\<close>, the
  one value the guard \<^verbatim>\<open>not self.created_at\<close> takes for a missing timestamp.
\<close>

theorem created_challenge_valid_for_ttl:
  assumes "T \<noteq> 0"
  shows "\<exists>s t g'. create render T g s0 = Inr (s, g') \<and> text_attr s = Some t
      \<and> (\<forall>now. (now - T \<le> CAPTCHA_TTL_SECONDS
                   \<longrightarrow> verify now t s = Inr ((True, ''ok''), s))
               \<and> (now - T > CAPTCHA_TTL_SECONDS
                   \<longrightarrow> verify now t s = Inr ((False, ''expired''), s)))"
proof -
  obtain t where c: "create render T g s0 =
          Inr (s0\<lparr>text_attr := Some t,
                 image_attr := Some (fst (render t (g\<lparr>pos := pos g + 5\<rparr>))),
                 created_at := Some T\<rparr>,
               snd (render t (g\<lparr>pos := pos g + 5\<rparr>)))"
    using create_result by blast
  let ?s = "s0\<lparr>text_attr := Some t,
                 image_attr := Some (fst (render t (g\<lparr>pos := pos g + 5\<rparr>))),
                 created_at := Some T\<rparr>"
  have t: "text_attr ?s = Some t" by simp
  have "verify now t ?s =
           Inr ((if now - T \<le> 120 then (True, ''ok'') else (False, ''expired'')), ?s)" for now
    using assms c t by (rule verify_after_create)
  then have "\<forall>now. (now - T \<le> CAPTCHA_TTL_SECONDS
                   \<longrightarrow> verify now t ?s = Inr ((True, ''ok''), ?s))
               \<and> (now - T > CAPTCHA_TTL_SECONDS
                   \<longrightarrow> verify now t ?s = Inr ((False, ''expired''), ?s))"
    by (simp add: CAPTCHA_TTL_SECONDS_def)
  with c t show ?thesis by blast
qed

text \<open>
  The challenge \<^verbatim>\<open>ABCDE\<close> created at time 1000, verified with its own text at ages 119,
  120 and 121 seconds.
\<close>

theorem created_challenge_valid_for_ttl_witness:
  "(1000::real) \<noteq> 0
   \<and> text_attr (run sample_render init [Create 1000 sample_rng]) = Some ''ABCDE''
   \<and> verify 1119 ''ABCDE'' (run sample_render init [Create 1000 sample_rng])
       = Inr ((True, ''ok''), run sample_render init [Create 1000 sample_rng])
   \<and> verify 1120 ''ABCDE'' (run sample_render init [Create 1000 sample_rng])
       = Inr ((True, ''ok''), run sample_render init [Create 1000 sample_rng])
   \<and> verify 1121 ''ABCDE'' (run sample_render init [Create 1000 sample_rng])
       = Inr ((False, ''expired''), run sample_render init [Create 1000 sample_rng])"
proof -
  let ?s = "run sample_render init [Create 1000 sample_rng]"
  have nz: "(1000::real) \<noteq> 0" by simp
  have t: "text_attr ?s = Some ''ABCDE''" by code_simp
  from created_challenge_valid_for_ttl [OF nz, of sample_render sample_rng init]
  obtain s t' g' where c: "create sample_render 1000 sample_rng init = Inr (s, g')"
    and tt: "text_attr s = Some t'"
    and v: "\<And>now. now - 1000 \<le> CAPTCHA_TTL_SECONDS
                \<Longrightarrow> verify now t' s = Inr ((True, ''ok''), s)"
    and e: "\<And>now. now - 1000 > CAPTCHA_TTL_SECONDS
                \<Longrightarrow> verify now t' s = Inr ((False, ''expired''), s)"
    by blast
  from c have s: "?s = s" by simp
  with t tt have t': "t' = ''ABCDE''" by simp
  have "verify 1119 t' s = Inr ((True, ''ok''), s)"
    by (rule v) (simp add: CAPTCHA_TTL_SECONDS_def)
  then have r1: "verify 1119 ''ABCDE'' ?s = Inr ((True, ''ok''), ?s)"
    unfolding s t' .
  have "verify 1120 t' s = Inr ((True, ''ok''), s)"
    by (rule v) (simp add: CAPTCHA_TTL_SECONDS_def)
  then have r2: "verify 1120 ''ABCDE'' ?s = Inr ((True, ''ok''), ?s)"
    unfolding s t' .
  have "verify 1121 t' s = Inr ((False, ''expired''), s)"
    by (rule e) (simp add: CAPTCHA_TTL_SECONDS_def)
  then have r3: "verify 1121 ''ABCDE'' ?s = Inr ((False, ''expired''), ?s)"
    unfolding s t' .
  from nz t r1 r2 r3 show ?thesis by blast
qed



text \<open>
  C3. \<^verbatim>\<open>verify\<close> reports \<^verbatim>\<open>expired\<close> exactly when \<^verbatim>\<open>is_valid()\<close> is false at that moment:
  for every session and attempt it returns a pair and leaves the session alone, an invalid
  challenge gives \<^verbatim>\<open>(False, "expired")\<close> whatever the attempt, and a valid one gives
  \<^verbatim>\<open>(True, "ok")\<close> or \<^verbatim>\<open>(False, "incorrect")\<close>, never \<^verbatim>\<open>expired\<close>. On a valid challenge an
  ASCII attempt that does not match the ASCII stored text gives \<^verbatim>\<open>(False, "incorrect")\<close>.
\<close>

theorem verify_expired_iff_not_valid:
  "(\<exists>b r. verify now attempt s = Inr ((b, r), s)
       \<and> (r = ''expired'' \<longleftrightarrow> \<not> is_valid now s)
       \<and> (\<not> is_valid now s \<longrightarrow> (b, r) = (False, ''expired''))
       \<and> (is_valid now s \<longrightarrow> (b, r) = (True, ''ok'') \<or> (b, r) = (False, ''incorrect'')))
   \<and> (is_valid now s \<and> text_attr s = Some t \<and> py_isascii attempt \<and> py_isascii t
        \<and> \<not> trimmed_equal_ignoring_case attempt t
      \<longrightarrow> verify now attempt s = Inr ((False, ''incorrect''), s))"
proof (cases "is_valid now s")
  case False
  then show ?thesis by (auto simp: verify_invalid)
next
  case True
  then obtain t' where t': "text_attr s = Some t'" by (auto simp: is_valid_iff)
  have 1: "\<exists>b r. verify now attempt s = Inr ((b, r), s)
       \<and> (r = ''expired'' \<longleftrightarrow> \<not> is_valid now s)
       \<and> (\<not> is_valid now s \<longrightarrow> (b, r) = (False, ''expired''))
       \<and> (is_valid now s \<longrightarrow> (b, r) = (True, ''ok'') \<or> (b, r) = (False, ''incorrect''))"
    using True t' by (auto simp: verify_valid)
  have 2: "verify now attempt s = Inr ((False, ''incorrect''), s)"
    if "text_attr s = Some t" "py_isascii attempt" "\<not> trimmed_equal_ignoring_case attempt t"
    using that True by (simp add: verify_valid trimmed_equal_iff)
  from 1 2 show ?thesis by blast
qed

text \<open>
  The matching attempt on the challenge of age 121 seconds, and a wrong one at age 1.
\<close>

theorem verify_expired_iff_not_valid_witness:
  "\<not> is_valid 1121 sample_session
   \<and> trimmed_equal_ignoring_case ''AB3FQ'' ''AB3FQ''
   \<and> verify 1121 ''AB3FQ'' sample_session = Inr ((False, ''expired''), sample_session)
   \<and> is_valid 1001 sample_session \<and> text_attr sample_session = Some ''AB3FQ''
   \<and> py_isascii ''AB3FX'' \<and> py_isascii ''AB3FQ''
   \<and> \<not> trimmed_equal_ignoring_case ''AB3FX'' ''AB3FQ''
   \<and> verify 1001 ''AB3FX'' sample_session = Inr ((False, ''incorrect''), sample_session)"
proof -
  have n: "\<not> is_valid 1121 sample_session"
    by (simp add: is_valid_iff sample_session_def)
  have v: "is_valid 1001 sample_session"
    by (simp add: is_valid_iff sample_session_def)
  have t: "text_attr sample_session = Some ''AB3FQ''"
    by (simp add: sample_session_def)
  have a0: "py_isascii ''AB3FQ''" by code_simp
  have a3: "py_isascii ''AB3FX''" by code_simp
  have "trimmed_to ''AB3FQ'' ''AB3FQ''"
    unfolding trimmed_to_def
    by (rule exI [of _ "[]"], rule exI [of _ "[]"]) (simp add: whitespace_def bordered_def)
  moreover have "equal_ignoring_case ''AB3FQ'' ''AB3FQ''" by code_simp
  ultimately have e2: "trimmed_equal_ignoring_case ''AB3FQ'' ''AB3FQ''"
    unfolding trimmed_equal_ignoring_case_def by blast
  have "py_upper (py_strip ''AB3FX'') \<noteq> py_upper ''AB3FQ''" by code_simp
  then have e3: "\<not> trimmed_equal_ignoring_case ''AB3FX'' ''AB3FQ''"
    by (simp add: trimmed_equal_iff [OF a3])
  from verify_expired_iff_not_valid [of 1121 "''AB3FQ''" sample_session] n
  have r1: "verify 1121 ''AB3FQ'' sample_session = Inr ((False, ''expired''), sample_session)"
    by auto
  from verify_expired_iff_not_valid [of 1001 "''AB3FX''" sample_session "''AB3FQ''"] v t a3 a0 e3
  have r2: "verify 1001 ''AB3FX'' sample_session = Inr ((False, ''incorrect''), sample_session)"
    by blast
  from n e2 r1 v t a3 a0 e3 r2 show ?thesis by blast
qed

text \<open>
  C4. With the default length, \<^verbatim>\<open>generate_captcha_text\<close> returns a text of length 5, every
  character of which is in \<^verbatim>\<open>ALLOWED_CHARS\<close>, is an upper-case ASCII letter or a digit,
  and is none of 0, O, 1, I, J, L.
\<close>

theorem generate_captcha_text_alphabet:
  "\<exists>t g'. generate_captcha_text CAPTCHA_LENGTH g = Inr (t, g')
      \<and> int (length t) = CAPTCHA_LENGTH \<and> length t = 5
      \<and> (\<forall>c\<in>set t. c \<in> set ALLOWED_CHARS \<and> restricted_alphabet c \<and> c \<notin> set ''0O1IJL'')"
proof -
  obtain t where t: "generate_captcha_text CAPTCHA_LENGTH g = Inr (t, g\<lparr>pos := pos g + 5\<rparr>)"
    "length t = 5" "set t \<subseteq> set ALLOWED_CHARS"
    using generate_total by blast
  have "\<forall>c\<in>set t. c \<in> set ALLOWED_CHARS \<and> restricted_alphabet c \<and> c \<notin> set ''0O1IJL''"
  proof
    fix c assume "c \<in> set t"
    with t(3) have a: "c \<in> set ALLOWED_CHARS" by blast
    then have r: "restricted_alphabet c" by (rule allowed_restricted)
    then have "c \<notin> set ''0O1IJL''" by (simp add: restricted_alphabet_def)
    with a r show "c \<in> set ALLOWED_CHARS \<and> restricted_alphabet c \<and> c \<notin> set ''0O1IJL''"
      by blast
  qed
  with t show ?thesis by (simp add: CAPTCHA_LENGTH_def)
qed

text \<open>
  The text drawn from the sample generator, and its third character.
\<close>

theorem generate_captcha_text_alphabet_witness:
  "map_sum id fst (generate_captcha_text CAPTCHA_LENGTH sample_rng) = Inr ''ABCDE''
   \<and> CHR ''C'' \<in> set ''ABCDE'' \<and> CHR ''C'' \<in> set ALLOWED_CHARS
   \<and> restricted_alphabet CHR ''C'' \<and> CHR ''C'' \<notin> set ''0O1IJL''"
proof -
  have g: "map_sum id fst (generate_captcha_text CAPTCHA_LENGTH sample_rng) = Inr ''ABCDE''"
    by code_simp
  obtain t g' where t: "generate_captcha_text CAPTCHA_LENGTH sample_rng = Inr (t, g')"
    and all: "\<forall>c\<in>set t. c \<in> set ALLOWED_CHARS \<and> restricted_alphabet c \<and> c \<notin> set ''0O1IJL''"
    using generate_captcha_text_alphabet [of sample_rng] by blast
  from g t have "t = ''ABCDE''" by simp
  with all have "CHR ''C'' \<in> set ALLOWED_CHARS \<and> restricted_alphabet CHR ''C''
      \<and> CHR ''C'' \<notin> set ''0O1IJL''"
    by simp
  with g show ?thesis by simp
qed


text \<open>
  C5. In every state reached from a new session by \<^verbatim>\<open>create\<close>, \<^verbatim>\<open>is_valid\<close>, \<^verbatim>\<open>verify\<close> and
  the login handler, the three attributes are all unset or all set, and a text that is set
  is not empty. The first half does not hold of the code: a successful login clears
  \<^verbatim>\<open>text\<close> alone (``invalidate used captcha'') and leaves image and timestamp in place.
  What every reachable state does satisfy: image and timestamp are unset together or set
  together, the text is set only when they are, and a text that is set is not empty.
\<close>

theorem reachable_challenge_invariant:
  "challenge_invariant (run render init ops)"
  using init_invariant by (rule run_invariant)

text \<open>
  After one \<^verbatim>\<open>create\<close> the text is set, and so are image and timestamp.
\<close>

theorem reachable_challenge_invariant_witness:
  "text_attr (run sample_render init [Create 1000 sample_rng]) = Some ''ABCDE''
   \<and> image_attr (run sample_render init [Create 1000 sample_rng]) \<noteq> None
   \<and> created_at (run sample_render init [Create 1000 sample_rng]) \<noteq> None
   \<and> text_attr (run sample_render init [Create 1000 sample_rng]) \<noteq> Some []"
proof -
  have t: "text_attr (run sample_render init [Create 1000 sample_rng]) = Some ''ABCDE''"
    by code_simp
  from reachable_challenge_invariant [of sample_render "[Create 1000 sample_rng]"] t
  show ?thesis unfolding challenge_invariant_def by simp
qed

text \<open>
  A challenge is created and then consumed by a successful login (user \<^verbatim>\<open>admin\<close>, the
  challenge text typed correctly one second later): the text is unset, image and timestamp
  are still set.
\<close>

theorem consumed_challenge_is_partial:
  "\<not> all_or_nothing (run sample_render init
       [Create 1000 sample_rng,
        Login ''admin'' ''Password123'' ''ABCDE'' True 1001 1002 sample_rng])
   \<and> text_attr (run sample_render init
       [Create 1000 sample_rng,
        Login ''admin'' ''Password123'' ''ABCDE'' True 1001 1002 sample_rng]) = None
   \<and> image_attr (run sample_render init
       [Create 1000 sample_rng,
        Login ''admin'' ''Password123'' ''ABCDE'' True 1001 1002 sample_rng]) = Some ''ABCDE''
   \<and> created_at (run sample_render init
       [Create 1000 sample_rng,
        Login ''admin'' ''Password123'' ''ABCDE'' True 1001 1002 sample_rng]) = Some 1000"
proof -
  let ?s = "run sample_render init
       [Create 1000 sample_rng,
        Login ''admin'' ''Password123'' ''ABCDE'' True 1001 1002 sample_rng]"
  have t: "text_attr ?s = None" by code_simp
  have i: "image_attr ?s = Some ''ABCDE''" by code_simp
  have c: "created_at ?s = Some 1000" by code_simp
  from t i c show ?thesis by (simp add: all_or_nothing_def)
qed


text \<open>
  C6. On a freshly constructed session, before any \<^verbatim>\<open>create\<close>, \<^verbatim>\<open>is_valid\<close> is false at
  every clock reading and \<^verbatim>\<open>verify\<close> returns \<^verbatim>\<open>(False, "expired")\<close> for every attempt.
\<close>

theorem fresh_session_is_expired:
  "\<not> is_valid now (init :: 'img CaptchaSession)
   \<and> verify now attempt (init :: 'img CaptchaSession) = Inr ((False, ''expired''), init)"
proof -
  have "\<not> is_valid now (init :: 'img CaptchaSession)" by (simp add: is_valid_iff init_def)
  then show ?thesis by (simp add: verify_invalid)
qed


text \<open>
  C7. For every session state, clock reading and attempt, \<^verbatim>\<open>verify\<close> returns one of its
  three outcomes and leaves the session as it found it: \<^verbatim>\<open>text\<close>, \<^verbatim>\<open>image\<close> and
  \<^verbatim>\<open>created_at\<close> have the values they had before the call.
\<close>

theorem verify_leaves_session:
  "\<exists>r s'. verify now attempt s = Inr (r, s')
      \<and> (r = (True, ''ok'') \<or> r = (False, ''incorrect'') \<or> r = (False, ''expired''))
      \<and> s' = s
      \<and> text_attr s' = text_attr s \<and> image_attr s' = image_attr s
      \<and> created_at s' = created_at s"
  using verify_returns [of now attempt s] by auto


text \<open>
  C8. Two consecutive calls of \<^verbatim>\<open>create\<close> on one session stamp different \<^verbatim>\<open>created_at\<close>
  values. The code stamps whatever \<^verbatim>\<open>time.time()\<close> returns and nothing in it keeps two
  readings apart, so the claim holds of the readings, not of the calls: both calls
  succeed, each stamps the reading of its own call, and the two stamps are equal exactly
  when the two readings are.
\<close>

theorem create_stamps_clock_reading:
  "\<exists>s1 ga s2 gb. create render t1 g1 s0 = Inr (s1, ga)
      \<and> create render t2 g2 s1 = Inr (s2, gb)
      \<and> created_at s1 = Some t1 \<and> created_at s2 = Some t2
      \<and> (created_at s2 = created_at s1 \<longleftrightarrow> t2 = t1)"
proof -
  obtain s1 ga where a: "create render t1 g1 s0 = Inr (s1, ga)" "created_at s1 = Some t1"
    using create_result [of render t1 g1 s0] by auto
  obtain s2 gb where b: "create render t2 g2 s1 = Inr (s2, gb)" "created_at s2 = Some t2"
    using create_result [of render t2 g2 s1] by auto
  from a b show ?thesis by auto
qed

text \<open>
  Two calls that meet the same clock reading: the second replaces the text and stamps the
  value the first one stamped.
\<close>

theorem same_clock_reading_same_stamp:
  "text_attr (run sample_render init [Create 1000 sample_rng]) = Some ''ABCDE''
   \<and> created_at (run sample_render init [Create 1000 sample_rng]) = Some 1000
   \<and> text_attr (run sample_render init
        [Create 1000 sample_rng, Create 1000 (sample_rng\<lparr>pos := 5\<rparr>)]) = Some ''FGHKM''
   \<and> created_at (run sample_render init
        [Create 1000 sample_rng, Create 1000 (sample_rng\<lparr>pos := 5\<rparr>)]) = Some 1000"
proof -
  have a: "text_attr (run sample_render init [Create 1000 sample_rng]) = Some ''ABCDE''"
    by code_simp
  have b: "created_at (run sample_render init [Create 1000 sample_rng]) = Some 1000"
    by code_simp
  have c: "text_attr (run sample_render init
        [Create 1000 sample_rng, Create 1000 (sample_rng\<lparr>pos := 5\<rparr>)]) = Some ''FGHKM''"
    by code_simp
  have d: "created_at (run sample_render init
        [Create 1000 sample_rng, Create 1000 (sample_rng\<lparr>pos := 5\<rparr>)]) = Some 1000"
    by code_simp
  from a b c d show ?thesis by simp
qed


text \<open>
  C9. A session whose text is unset or empty is not valid and answers every attempt with
  \<^verbatim>\<open>(False, "expired")\<close>, whatever its timestamp and the clock reading: at \<^verbatim>\<open>verify\<close> a
  consumed challenge looks like an expired one.
\<close>

theorem no_text_is_expired:
  assumes "text_attr s = None \<or> text_attr s = Some []"
  shows "\<not> is_valid now s \<and> verify now attempt s = Inr ((False, ''expired''), s)"
proof -
  from assms have "\<not> is_valid now s" by (auto simp: is_valid_iff)
  then show ?thesis by (simp add: verify_invalid)
qed

text \<open>
  The session left by a successful login, three seconds after its challenge was created:
  the timestamp is within the lifetime, the text is unset, and the text that was correct
  is answered with \<^verbatim>\<open>expired\<close>.
\<close>

theorem no_text_is_expired_witness:
  "text_attr (run sample_render init
       [Create 1000 sample_rng,
        Login ''admin'' ''Password123'' ''ABCDE'' True 1001 1002 sample_rng]) = None
   \<and> created_at (run sample_render init
       [Create 1000 sample_rng,
        Login ''admin'' ''Password123'' ''ABCDE'' True 1001 1002 sample_rng]) = Some 1000
   \<and> (1003::real) - 1000 \<le> CAPTCHA_TTL_SECONDS
   \<and> \<not> is_valid 1003 (run sample_render init
       [Create 1000 sample_rng,
        Login ''admin'' ''Password123'' ''ABCDE'' True 1001 1002 sample_rng])
   \<and> verify 1003 ''ABCDE'' (run sample_render init
       [Create 1000 sample_rng,
        Login ''admin'' ''Password123'' ''ABCDE'' True 1001 1002 sample_rng])
     = Inr ((False, ''expired''), run sample_render init
       [Create 1000 sample_rng,
        Login ''admin'' ''Password123'' ''ABCDE'' True 1001 1002 sample_rng])"
proof -
  let ?s = "run sample_render init
       [Create 1000 sample_rng,
        Login ''admin'' ''Password123'' ''ABCDE'' True 1001 1002 sample_rng]"
  have t: "text_attr ?s = None" by code_simp
  have c: "created_at ?s = Some 1000" by code_simp
  have l: "(1003::real) - 1000 \<le> CAPTCHA_TTL_SECONDS" by (simp add: CAPTCHA_TTL_SECONDS_def)
  from t have "text_attr ?s = None \<or> text_attr ?s = Some []" by simp
  from no_text_is_expired [OF this, of 1003 "''ABCDE''"] t c l show ?thesis by simp
qed


text \<open>
  C10. A session holding a challenge whose timestamp lies after the current clock reading
  is valid: the age test \<^verbatim>\<open>time.time() - self.created_at <= CAPTCHA_TTL_SECONDS\<close> has no
  lower bound, so a negative age is accepted. The challenge is a non-empty text and a
  timestamp read from \<^verbatim>\<open>time.time()\<close> on a running system, which is not \<^verbatim>\<open>0.0\<close>, the one
  value the guard \<^verbatim>\<open>not self.created_at\<close> takes for a missing timestamp.
\<close>

theorem future_stamp_is_valid:
  assumes "text_attr s = Some t" and "t \<noteq> []"
    and "created_at s = Some c" and "c \<noteq> 0"
    and "now < c"
  shows "is_valid now s"
proof -
  from assms(5) have "now - c \<le> 120" by simp
  with assms(1-4) show ?thesis by (simp add: is_valid_iff)
qed

text \<open>
  The challenge stamped at 1000, read when the clock has gone back to 500.
\<close>

theorem future_stamp_is_valid_witness:
  "text_attr sample_session = Some ''AB3FQ'' \<and> ''AB3FQ'' \<noteq> []
   \<and> created_at sample_session = Some 1000 \<and> (1000::real) \<noteq> 0 \<and> (500::real) < 1000
   \<and> is_valid 500 sample_session"
proof -
  have t: "text_attr sample_session = Some ''AB3FQ''" by (simp add: sample_session_def)
  have c: "created_at sample_session = Some 1000" by (simp add: sample_session_def)
  have ne: "''AB3FQ'' \<noteq> []" by simp
  have nz: "(1000::real) \<noteq> 0" by simp
  have lt: "(500::real) < 1000" by simp
  from future_stamp_is_valid [OF t ne c nz lt] t ne c nz lt show ?thesis by blast
qed

end
